theory Spec2Isabelle
  imports Main
begin

section \<open>Data model of package exception\<close>

text \<open>
  \<^verbatim>\<open>type ErrorCode int\<close>.  No arithmetic is ever done on a code: it is stored, returned and
  compared for equality only, so the integer is modelled without a width.
\<close>

type_synonym ErrorCode = int

definition ErrorBadRequest :: ErrorCode where "ErrorBadRequest = 400"
definition ErrorUnauthorized :: ErrorCode where "ErrorUnauthorized = 401"
definition ErrorForbidden :: ErrorCode where "ErrorForbidden = 403"
definition ErrorNotFound :: ErrorCode where "ErrorNotFound = 404"
definition ErrorInternalServer :: ErrorCode where "ErrorInternalServer = 500"
definition ErrorNotImplemented :: ErrorCode where "ErrorNotImplemented = 501"
definition ErrorServiceUnavailable :: ErrorCode where "ErrorServiceUnavailable = 503"

text \<open>
  A value of type \<^verbatim>\<open>*CustomError\<close> is the nil pointer or the address of a struct in the store.
\<close>

datatype ptr = NilPtr | Addr nat

text \<open>
  A value of the interface type \<^verbatim>\<open>error\<close>: the nil interface, an error of some other dynamic
  type (identified by the object it is, with the text it renders), or a \<^verbatim>\<open>*CustomError\<close>.
  An interface holding a nil \<^verbatim>\<open>*CustomError\<close> is \<open>ErrCustom NilPtr\<close>, which is not \<open>ErrNil\<close>.
\<close>

datatype error = ErrNil | ErrPlain nat string | ErrCustom ptr

record CustomError =
  code :: ErrorCode
  Message :: string
  Trace :: string
  PreviousTraces :: "string list"
  Err :: error

text \<open>The store of allocated structs; the address of a struct is its index.\<close>

type_synonym heap = "CustomError list"

text \<open>The only run-time panic of the package: a field access through a nil pointer.\<close>

datatype fault = NilDereference

text \<open>\<^verbatim>\<open>&CustomError{}\<close>: every field has its zero value.\<close>

definition zeroCustomError :: CustomError where
  "zeroCustomError = \<lparr>code = 0, Message = [], Trace = [], PreviousTraces = [], Err = ErrNil\<rparr>"

fun deref :: "heap \<Rightarrow> ptr \<Rightarrow> fault + CustomError" where
  "deref h NilPtr = Inl NilDereference"
| "deref h (Addr a) = (if a < length h then Inr (h ! a) else Inl NilDereference)"

section \<open>Options\<close>

text \<open>
  \<^verbatim>\<open>type CustomErrorOption func(*CustomError)\<close>.  The package builds such closures with
  five constructors only, each assigning one field; a closure is represented by the
  constructor that made it and \<open>applyOption\<close> is its call on a struct.
\<close>

datatype CustomErrorOption =
    WithCode ErrorCode
  | WithMessage string
  | WithTrace string
  | WithPreviousTraces "string list"
  | WithCause error

fun applyOption :: "CustomErrorOption \<Rightarrow> CustomError \<Rightarrow> CustomError" where
  "applyOption (WithCode c) e = e\<lparr>code := c\<rparr>"
| "applyOption (WithMessage m) e = e\<lparr>Message := m\<rparr>"
| "applyOption (WithTrace t) e = e\<lparr>Trace := t\<rparr>"
| "applyOption (WithPreviousTraces ts) e = e\<lparr>PreviousTraces := ts\<rparr>"
| "applyOption (WithCause c) e = e\<lparr>Err := c\<rparr>"

section \<open>Methods of \<^verbatim>\<open>*CustomError\<close>\<close>

definition CustomError_Error :: "heap \<Rightarrow> ptr \<Rightarrow> fault + string" where
  "CustomError_Error h p =
     (case deref h p of
        Inl f \<Rightarrow> Inl f
      | Inr e \<Rightarrow> Inr (if Message e = [] then ''unknown error'' else Message e))"

definition CustomError_Cause :: "heap \<Rightarrow> ptr \<Rightarrow> fault + error" where
  "CustomError_Cause h p = (case deref h p of Inl f \<Rightarrow> Inl f | Inr e \<Rightarrow> Inr (Err e))"

definition CustomError_Code :: "heap \<Rightarrow> ptr \<Rightarrow> fault + ErrorCode" where
  "CustomError_Code h p = (case deref h p of Inl f \<Rightarrow> Inl f | Inr e \<Rightarrow> Inr (code e))"

definition CustomError_Unwrap :: "heap \<Rightarrow> ptr \<Rightarrow> fault + error" where
  "CustomError_Unwrap h p = (case deref h p of Inl f \<Rightarrow> Inl f | Inr e \<Rightarrow> Inr (Err e))"

definition CustomError_Is :: "heap \<Rightarrow> ptr \<Rightarrow> error \<Rightarrow> fault + bool" where
  "CustomError_Is h p target =
     (case target of
        ErrCustom t \<Rightarrow>
          (case deref h p of
             Inl f \<Rightarrow> Inl f
           | Inr e \<Rightarrow> (case deref h t of Inl f \<Rightarrow> Inl f | Inr te \<Rightarrow> Inr (code e = code te)))
      | _ \<Rightarrow> Inr False)"



section \<open>Construction\<close>

text \<open>
  \<open>newCustomError\<close> allocates a zero struct, calls every option on it in order and returns
  its address together with the extended store.
\<close>

definition newCustomError :: "heap \<Rightarrow> CustomErrorOption list \<Rightarrow> ptr \<times> heap" where
  "newCustomError h opts = (Addr (length h), h @ [fold applyOption opts zeroCustomError])"

definition New :: "heap \<Rightarrow> string \<Rightarrow> ErrorCode \<Rightarrow> ptr \<times> heap" where
  "New h msg c = newCustomError h [WithMessage msg, WithCode c]"

section \<open>Capturing a stack frame\<close>

text \<open>
  The Go runtime is the environment.  Its call stack at the moment \<^verbatim>\<open>runtime.Callers\<close> runs
  is a list of frames, innermost first (index 0 is \<^verbatim>\<open>runtime.Callers\<close> itself).
  \<^verbatim>\<open>runtime.Callers(skip, buf)\<close> skips \<open>skip\<close> frames and fills at most \<open>len(buf)\<close> entries;
  its result \<open>n\<close> is the number of entries filled.
\<close>

record Frame =
  File :: string
  Line :: int
  Function :: string

definition zeroFrame :: Frame where
  "zeroFrame = \<lparr>File = [], Line = 0, Function = []\<rparr>"

definition runtime_Callers :: "nat \<Rightarrow> nat \<Rightarrow> Frame list \<Rightarrow> Frame list" where
  "runtime_Callers skip buflen stk = take buflen (drop skip stk)"

text \<open>\<^verbatim>\<open>runtime.CallersFrames(pcs).Next()\<close>: the first frame, the zero frame when there is none.\<close>

fun CallersFrames_Next :: "Frame list \<Rightarrow> Frame" where
  "CallersFrames_Next [] = zeroFrame"
| "CallersFrames_Next (f # fs) = f"

text \<open>The verb \<^verbatim>\<open>%d\<close> of \<^verbatim>\<open>fmt.Sprintf\<close>: decimal digits, with a minus sign when negative.\<close>

fun natDigits :: "nat \<Rightarrow> string" where
  "natDigits n =
     (if n < 10 then [''0123456789'' ! n]
      else natDigits (n div 10) @ [''0123456789'' ! (n mod 10)])"

declare natDigits.simps [simp del]

definition fmtD :: "int \<Rightarrow> string" where
  "fmtD i = (if i < 0 then CHR ''-'' # natDigits (nat (- i)) else natDigits (nat i))"

definition captureStackTrace :: "Frame list \<Rightarrow> string" where
  "captureStackTrace stk =
     (let pcs = runtime_Callers 3 1 stk; n = length pcs in
      if n = 0 then ''unknown''
      else (let frame = CallersFrames_Next (take n pcs) in
            File frame @ '':'' @ fmtD (Line frame) @ '' '' @ Function frame))"

section \<open>Wrapping\<close>

text \<open>
  \<open>wrapError\<close> takes the runtime's call stack and the store, and returns the resulting
  \<^verbatim>\<open>error\<close> value with the updated store, or the panic.  The type assertion
  \<^verbatim>\<open>err.(*CustomError)\<close> succeeds on every \<open>ErrCustom p\<close>, also for the nil pointer,
  whose field access then panics.
\<close>

definition wrapError ::
  "Frame list \<Rightarrow> heap \<Rightarrow> error \<Rightarrow> CustomErrorOption list \<Rightarrow> fault + (error \<times> heap)" where
  "wrapError stk h err opts =
     (let trace = captureStackTrace stk in
      case err of
        ErrCustom NilPtr \<Rightarrow> Inl NilDereference
      | ErrCustom (Addr a) \<Rightarrow>
          (case deref h (Addr a) of
             Inl f \<Rightarrow> Inl f
           | Inr customErr \<Rightarrow>
               (let previousTraces = [Trace customErr] @ PreviousTraces customErr;
                    updated = customErr\<lparr>Trace := trace, PreviousTraces := previousTraces\<rparr>
                in Inr (ErrCustom (Addr a), h[a := fold applyOption opts updated])))
      | _ \<Rightarrow>
          (let allOpts = [WithTrace trace, WithPreviousTraces [], WithCause err] @ opts;
               (p, h') = newCustomError h allOpts
           in Inr (ErrCustom p, h')))"

definition WrapTrace :: "Frame list \<Rightarrow> heap \<Rightarrow> error \<Rightarrow> fault + (error \<times> heap)" where
  "WrapTrace stk h err = wrapError stk h err [WithMessage ''An error occurred'']"

definition WrapMessageWithCode ::
  "Frame list \<Rightarrow> heap \<Rightarrow> error \<Rightarrow> ErrorCode \<Rightarrow> string \<Rightarrow> fault + (error \<times> heap)" where
  "WrapMessageWithCode stk h err errCode msg =
     wrapError stk h err [WithMessage msg, WithCode errCode]"

definition WrapMessage :: "Frame list \<Rightarrow> heap \<Rightarrow> error \<Rightarrow> string \<Rightarrow> fault + (error \<times> heap)" where
  "WrapMessage stk h err msg =
     wrapError stk h err [WithMessage msg, WithCode ErrorInternalServer]"

section \<open>Free functions\<close>

text \<open>
  \<open>Cause\<close> recurses along the \<open>Err\<close> fields.  On a store whose chain is cyclic the Go function
  never returns; that is the value \<open>None\<close>.
\<close>

partial_function (option) Cause :: "heap \<Rightarrow> error \<Rightarrow> (fault + error) option" where
  "Cause h err =
     (case err of
        ErrCustom p \<Rightarrow>
          (case CustomError_Cause h p of
             Inl f \<Rightarrow> Some (Inl f)
           | Inr c \<Rightarrow> if c \<noteq> ErrNil then Cause h c else Some (Inr err))
      | _ \<Rightarrow> Some (Inr err))"

definition Unwrap :: "heap \<Rightarrow> error \<Rightarrow> fault + error" where
  "Unwrap h err =
     (case err of
        ErrCustom NilPtr \<Rightarrow> Inr err
      | ErrCustom (Addr a) \<Rightarrow> CustomError_Cause h (Addr a)
      | _ \<Rightarrow> Inr err)"


definition IsCustomError :: "error \<Rightarrow> bool" where
  "IsCustomError err = (case err of ErrCustom p \<Rightarrow> True | _ \<Rightarrow> False)"

section \<open>Vocabulary of the properties\<close>

text \<open>
  The three exported entry points pass \<open>wrapError\<close> message and code options only;
  \<open>isOverride\<close> recognises those.
\<close>

fun isOverride :: "CustomErrorOption \<Rightarrow> bool" where
  "isOverride (WithCode c) = True"
| "isOverride (WithMessage m) = True"
| "isOverride _ = False"

text \<open>
  A terminal error is one at which \<open>Cause\<close> stops: an error that is not a \<^verbatim>\<open>*CustomError\<close>,
  or a live \<^verbatim>\<open>*CustomError\<close> whose \<open>Err\<close> field is nil.
\<close>

definition terminal :: "heap \<Rightarrow> error \<Rightarrow> bool" where
  "terminal h t =
     (case t of
        ErrCustom NilPtr \<Rightarrow> False
      | ErrCustom (Addr a) \<Rightarrow> a < length h \<and> Err (h ! a) = ErrNil
      | _ \<Rightarrow> True)"

text \<open>
  \<open>isChain h es\<close>: the list \<open>es\<close> is the cause chain of its head in the store \<open>h\<close>. Every
  element but the last is a live \<^verbatim>\<open>*CustomError\<close> whose non-nil \<open>Err\<close> field is the next element,
  and the last element is terminal.  A chain that is a list is finite, and it cannot run
  through a cycle.
\<close>

fun isChain :: "heap \<Rightarrow> error list \<Rightarrow> bool" where
  "isChain h [] = False"
| "isChain h [t] = terminal h t"
| "isChain h (e # c # es) =
     (case e of
        ErrCustom (Addr a) \<Rightarrow> a < length h \<and> Err (h ! a) = c \<and> c \<noteq> ErrNil \<and> isChain h (c # es)
      | _ \<Rightarrow> False)"

text \<open>A trace entry is a single line when it holds no newline character.\<close>

definition singleLine :: "string \<Rightarrow> bool" where
  "singleLine s = (CHR 0x0A \<notin> set s)"




section \<open>Auxiliary facts\<close>

lemma fold_override_frame:
  "list_all isOverride opts \<Longrightarrow>
     Trace (fold applyOption opts e) = Trace e \<and>
     PreviousTraces (fold applyOption opts e) = PreviousTraces e \<and>
     Err (fold applyOption opts e) = Err e"
proof (induction opts arbitrary: e)
  case Nil
  then show ?case by simp
next
  case (Cons o1 opts)
  then show ?case by (cases o1) simp_all
qed

lemma fold_no_message:
  "\<forall>m. WithMessage m \<notin> set opts \<Longrightarrow> list_all isOverride opts \<Longrightarrow>
     Message (fold applyOption opts e) = Message e"
proof (induction opts arbitrary: e)
  case Nil
  then show ?case by simp
next
  case (Cons o1 opts)
  then show ?case by (cases o1) auto
qed

lemma fold_no_code:
  "\<forall>c. WithCode c \<notin> set opts \<Longrightarrow> list_all isOverride opts \<Longrightarrow>
     code (fold applyOption opts e) = code e"
proof (induction opts arbitrary: e)
  case Nil
  then show ?case by simp
next
  case (Cons o1 opts)
  then show ?case by (cases o1) auto
qed



lemma captureStackTrace_frame:
  "runtime_Callers 3 1 stk = f # fs \<Longrightarrow>
     captureStackTrace stk = File f @ '':'' @ fmtD (Line f) @ '' '' @ Function f"
  by (simp add: captureStackTrace_def Let_def)

lemma wrapError_fresh:
  "\<not> IsCustomError err \<Longrightarrow>
     wrapError stk h err opts =
       Inr (ErrCustom (Addr (length h)),
            h @ [fold applyOption opts
                   \<lparr>code = 0, Message = [], Trace = captureStackTrace stk,
                    PreviousTraces = [], Err = err\<rparr>])"
  by (cases err) (simp_all add: IsCustomError_def wrapError_def newCustomError_def zeroCustomError_def Let_def)

lemma wrapError_existing:
  "a < length h \<Longrightarrow>
     wrapError stk h (ErrCustom (Addr a)) opts =
       Inr (ErrCustom (Addr a),
            h[a := fold applyOption opts
                     ((h ! a)\<lparr>Trace := captureStackTrace stk,
                              PreviousTraces := Trace (h ! a) # PreviousTraces (h ! a)\<rparr>)])"
  by (simp add: wrapError_def Let_def)

lemma Cause_chain:
  "isChain h es \<Longrightarrow> Cause h (hd es) = Some (Inr (last es))"
proof (induction h es rule: isChain.induct)
  case (1 h)
  then show ?case by simp
next
  case (2 h t)
  then show ?case
    by (subst Cause.simps)
       (auto simp: terminal_def CustomError_Cause_def split: error.splits ptr.splits)
next
  case (3 h e c es)
  then show ?case
    by (subst Cause.simps)
       (auto simp: CustomError_Cause_def split: error.splits ptr.splits)
qed

lemma isChain_last_terminal: "isChain h es \<Longrightarrow> terminal h (last es)"
  by (induction h es rule: isChain.induct) (auto split: error.splits ptr.splits)







lemma natDigits_singleLine: "CHR 0x0A \<notin> set (natDigits n)"
proof (induction n rule: natDigits.induct)
  case (1 n)
  have d: "k < 10 \<Longrightarrow> ''0123456789'' ! k \<noteq> CHR 0x0A" for k :: nat
  proof -
    assume "k < 10"
    then have "k \<in> {0,1,2,3,4,5,6,7,8,9}" by auto
    then show ?thesis by auto
  qed
  show ?case
  proof (cases "n < 10")
    case True
    then show ?thesis using d [of n] by (subst natDigits.simps) simp
  next
    case False
    have "n mod 10 < 10" by simp
    then show ?thesis using False 1 d [of "n mod 10"]
      by (subst natDigits.simps) simp
  qed
qed

lemma fmtD_singleLine: "singleLine (fmtD i)"
  by (simp add: fmtD_def singleLine_def natDigits_singleLine)

lemma captureStackTrace_singleLine:
  "\<forall>f \<in> set stk. singleLine (File f) \<and> singleLine (Function f) \<Longrightarrow>
     singleLine (captureStackTrace stk)"
proof (cases "runtime_Callers 3 1 stk")
  case Nil
  then show ?thesis by (simp add: captureStackTrace_def singleLine_def)
next
  case (Cons f fs)
  assume a: "\<forall>f \<in> set stk. singleLine (File f) \<and> singleLine (Function f)"
  from Cons have "f \<in> set (take 1 (drop 3 stk))" by (simp add: runtime_Callers_def)
  then have "f \<in> set stk" by (meson in_set_dropD in_set_takeD)
  with a have "singleLine (File f)" "singleLine (Function f)" by auto
  moreover have "singleLine (fmtD (Line f))" by (rule fmtD_singleLine)
  ultimately show ?thesis
    using captureStackTrace_frame [OF Cons] by (simp add: singleLine_def)
qed


text \<open>
  Without a finite chain \<open>Cause\<close> need not return: on a struct that is its own cause the
  recursion never ends.
\<close>

lemma Cause_self_cycle_aux:
  assumes "Cause h err = Some y"
  shows "\<not> (h = [\<lparr>code = 0, Message = [], Trace = [], PreviousTraces = [],
                   Err = ErrCustom (Addr 0)\<rparr>] \<and> err = ErrCustom (Addr 0))"
proof (rule Cause.raw_induct [where P = "\<lambda>h err y. \<not> (h = [\<lparr>code = 0, Message = [], Trace = [], PreviousTraces = [],
                   Err = ErrCustom (Addr 0)\<rparr>] \<and> err = ErrCustom (Addr 0))", OF _ assms])
  fix C h' err' y'
  assume ih: "\<And>h err y. C h err = Some y \<Longrightarrow> \<not> (h = [\<lparr>code = 0, Message = [], Trace = [], PreviousTraces = [],
                   Err = ErrCustom (Addr 0)\<rparr>] \<and> err = ErrCustom (Addr 0))"
    and body: "(case err' of
          ErrCustom p \<Rightarrow>
            (case CustomError_Cause h' p of Inl f \<Rightarrow> Some (Inl f)
             | Inr c \<Rightarrow> if c \<noteq> ErrNil then C h' c else Some (Inr err'))
          | _ \<Rightarrow> Some (Inr err')) = Some y'"
  show "\<not> (h' = [\<lparr>code = 0, Message = [], Trace = [], PreviousTraces = [],
                   Err = ErrCustom (Addr 0)\<rparr>] \<and> err' = ErrCustom (Addr 0))"
  proof
    assume c: "h' = [\<lparr>code = 0, Message = [], Trace = [], PreviousTraces = [],
                   Err = ErrCustom (Addr 0)\<rparr>] \<and> err' = ErrCustom (Addr 0)"
    with body have "C h' err' = Some y'"
      by (simp add: CustomError_Cause_def)
    from ih [OF this] c show False by simp
  qed
qed

lemma Cause_self_cycle_diverges:
  "Cause [\<lparr>code = 0, Message = [], Trace = [], PreviousTraces = [], Err = ErrCustom (Addr 0)\<rparr>]
     (ErrCustom (Addr 0)) = None"
  using Cause_self_cycle_aux
  by (cases "Cause [\<lparr>code = 0, Message = [], Trace = [], PreviousTraces = [], Err = ErrCustom (Addr 0)\<rparr>]
     (ErrCustom (Addr 0))") auto

section \<open>Properties\<close>

subsection \<open>C1: three wraps of a plain error\<close>

text \<open>
  Claim C1, as the code has it.  A plain error is wrapped three times through \<open>wrapError\<close>
  with message and code options.  The first wrap allocates a struct; the second and third
  return that same struct.  Its \<open>PreviousTraces\<close> is empty after the first wrap, holds one
  entry (the first trace) after the second and two entries (second trace, then first trace)
  after the third, so the most recent of the earlier traces comes first; the method \<open>Cause\<close>
  returns the original plain error after every wrap.
\<close>

theorem wrap_thrice_prior_traces:
  assumes "list_all isOverride o1" and "list_all isOverride o2" and "list_all isOverride o3"
  shows "\<exists>h1 h2 h3.
           wrapError s1 h (ErrPlain i m) o1 = Inr (ErrCustom (Addr (length h)), h1) \<and>
           wrapError s2 h1 (ErrCustom (Addr (length h))) o2 = Inr (ErrCustom (Addr (length h)), h2) \<and>
           wrapError s3 h2 (ErrCustom (Addr (length h))) o3 = Inr (ErrCustom (Addr (length h)), h3) \<and>
           PreviousTraces (h1 ! length h) = [] \<and>
           PreviousTraces (h2 ! length h) = [captureStackTrace s1] \<and>
           PreviousTraces (h3 ! length h) = [captureStackTrace s2, captureStackTrace s1] \<and>
           length (PreviousTraces (h2 ! length h)) = 1 \<and>
           length (PreviousTraces (h3 ! length h)) = 2 \<and>
           Trace (h3 ! length h) = captureStackTrace s3 \<and>
           CustomError_Cause h1 (Addr (length h)) = Inr (ErrPlain i m) \<and>
           CustomError_Cause h2 (Addr (length h)) = Inr (ErrPlain i m) \<and>
           CustomError_Cause h3 (Addr (length h)) = Inr (ErrPlain i m)"
proof -
  let ?a = "length h"
  let ?e1 = "fold applyOption o1
               \<lparr>code = 0, Message = [], Trace = captureStackTrace s1,
                PreviousTraces = [], Err = ErrPlain i m\<rparr>"
  let ?h1 = "h @ [?e1]"
  let ?e2 = "fold applyOption o2
               (?e1\<lparr>Trace := captureStackTrace s2, PreviousTraces := Trace ?e1 # PreviousTraces ?e1\<rparr>)"
  let ?h2 = "?h1[?a := ?e2]"
  let ?e3 = "fold applyOption o3
               (?e2\<lparr>Trace := captureStackTrace s3, PreviousTraces := Trace ?e2 # PreviousTraces ?e2\<rparr>)"
  let ?h3 = "?h2[?a := ?e3]"
  have w1: "wrapError s1 h (ErrPlain i m) o1 = Inr (ErrCustom (Addr ?a), ?h1)"
    by (rule wrapError_fresh) (simp add: IsCustomError_def)
  have w2: "wrapError s2 ?h1 (ErrCustom (Addr ?a)) o2 = Inr (ErrCustom (Addr ?a), ?h2)"
    using wrapError_existing [of ?a ?h1 s2 o2] by simp
  have w3: "wrapError s3 ?h2 (ErrCustom (Addr ?a)) o3 = Inr (ErrCustom (Addr ?a), ?h3)"
    using wrapError_existing [of ?a ?h2 s3 o3] by simp
  have c1: "?h1 ! ?a = ?e1" by simp
  have c2: "?h2 ! ?a = ?e2" by simp
  have c3: "?h3 ! ?a = ?e3" by simp
  have f1: "Trace ?e1 = captureStackTrace s1" "PreviousTraces ?e1 = []" "Err ?e1 = ErrPlain i m"
    using fold_override_frame [OF assms(1)] by simp_all
  have f2: "Trace ?e2 = captureStackTrace s2" "PreviousTraces ?e2 = [captureStackTrace s1]"
    "Err ?e2 = ErrPlain i m"
    using fold_override_frame [OF assms(2)] f1 by simp_all
  have f3: "Trace ?e3 = captureStackTrace s3"
    "PreviousTraces ?e3 = [captureStackTrace s2, captureStackTrace s1]"
    "Err ?e3 = ErrPlain i m"
    using fold_override_frame [OF assms(3)] f2 by simp_all
  have l1: "?a < length ?h1" by simp
  have l2: "?a < length ?h2" by simp
  have l3: "?a < length ?h3" by simp
  have k1: "CustomError_Cause ?h1 (Addr ?a) = Inr (ErrPlain i m)"
    unfolding CustomError_Cause_def using l1 c1 f1(3) by (simp del: nth_append_length)
  have k2: "CustomError_Cause ?h2 (Addr ?a) = Inr (ErrPlain i m)"
    unfolding CustomError_Cause_def using l2 c2 f2(3) by (simp del: nth_append_length nth_list_update_eq)
  have k3: "CustomError_Cause ?h3 (Addr ?a) = Inr (ErrPlain i m)"
    unfolding CustomError_Cause_def using l3 c3 f3(3) by (simp del: nth_append_length nth_list_update_eq)
  show ?thesis
    apply (rule exI [of _ ?h1], rule exI [of _ ?h2], rule exI [of _ ?h3])
    apply (intro conjI)
    apply (rule w1)
    apply (rule w2)
    apply (rule w3)
    using c1 f1 apply simp
    using c2 f2 apply simp
    using c3 f3 apply simp
    using c2 f2 apply simp
    using c3 f3 apply simp
    using c3 f3 apply simp
    apply (rule k1)
    apply (rule k2)
    apply (rule k3)
    done
qed

theorem wrap_thrice_prior_traces_witness:
  "\<exists>h1 h2 h3.
     wrapError [] [] (ErrPlain 0 ''v is 0'') [WithMessage ''a'', WithCode 500]
       = Inr (ErrCustom (Addr 0), h1) \<and>
     wrapError [] h1 (ErrCustom (Addr 0)) [WithMessage ''b'', WithCode 500]
       = Inr (ErrCustom (Addr 0), h2) \<and>
     wrapError [] h2 (ErrCustom (Addr 0)) [WithMessage ''c''] = Inr (ErrCustom (Addr 0), h3) \<and>
     PreviousTraces (h1 ! 0) = [] \<and>
     PreviousTraces (h2 ! 0) = [''unknown''] \<and>
     PreviousTraces (h3 ! 0) = [''unknown'', ''unknown''] \<and>
     length (PreviousTraces (h2 ! 0)) = 1 \<and>
     length (PreviousTraces (h3 ! 0)) = 2 \<and>
     Trace (h3 ! 0) = ''unknown'' \<and>
     CustomError_Cause h1 (Addr 0) = Inr (ErrPlain 0 ''v is 0'') \<and>
     CustomError_Cause h2 (Addr 0) = Inr (ErrPlain 0 ''v is 0'') \<and>
     CustomError_Cause h3 (Addr 0) = Inr (ErrPlain 0 ''v is 0'')"
proof -
  have cs: "captureStackTrace [] = ''unknown''"
    by (simp add: captureStackTrace_def runtime_Callers_def)
  have ov: "list_all isOverride [WithMessage ''a'', WithCode 500]"
    "list_all isOverride [WithMessage ''b'', WithCode 500]"
    "list_all isOverride [WithMessage ''c'']"
    by simp_all
  show ?thesis
    using wrap_thrice_prior_traces [OF ov, of "[]" "[]" 0 "''v is 0''" "[]" "[]"]
    by (simp add: cs)
qed

text \<open>
  Claim C1 as worded asks for two prior traces after the second wrap.  With \<open>WrapTrace\<close>
  on an empty store and no resolvable frame, the struct after the second wrap has exactly
  one prior trace.
\<close>

theorem wrap_twice_prior_length_counterexample:
  "WrapTrace [] [] (ErrPlain 0 ''v is 0'') =
     Inr (ErrCustom (Addr 0),
          [\<lparr>code = 0, Message = ''An error occurred'', Trace = ''unknown'',
            PreviousTraces = [], Err = ErrPlain 0 ''v is 0''\<rparr>]) \<and>
   WrapTrace []
     [\<lparr>code = 0, Message = ''An error occurred'', Trace = ''unknown'',
       PreviousTraces = [], Err = ErrPlain 0 ''v is 0''\<rparr>] (ErrCustom (Addr 0)) =
     Inr (ErrCustom (Addr 0),
          [\<lparr>code = 0, Message = ''An error occurred'', Trace = ''unknown'',
            PreviousTraces = [''unknown''], Err = ErrPlain 0 ''v is 0''\<rparr>]) \<and>
   length (PreviousTraces
     \<lparr>code = 0, Message = ''An error occurred'', Trace = ''unknown'',
      PreviousTraces = [''unknown''], Err = ErrPlain 0 ''v is 0''\<rparr>) \<noteq> 2"
  by (simp add: WrapTrace_def wrapError_def newCustomError_def zeroCustomError_def
      captureStackTrace_def runtime_Callers_def)

subsection \<open>C2: wrapping a \<^verbatim>\<open>*CustomError\<close> updates the traces\<close>

text \<open>
  Claim C2, for a pointer to a live struct.  When the error is a non-nil \<^verbatim>\<open>*CustomError\<close>
  holding the struct \<open>e\<close>, each entry point stores at the same address a struct whose
  \<open>Trace\<close> is the newly captured trace and whose \<open>PreviousTraces\<close> is the old \<open>Trace\<close> followed
  by the old \<open>PreviousTraces\<close> in their order; \<open>WrapTrace\<close> overrides the message only,
  \<open>WrapMessage\<close> the message and the code (500), \<open>WrapMessageWithCode\<close> both as given.  For
  \<open>wrapError\<close> with any message and code options the stored struct is the updated one
  with the options applied in order.
\<close>

theorem rewrap_sets_traces:
  assumes "deref h (Addr a) = Inr e"
  shows "WrapTrace stk h (ErrCustom (Addr a)) =
           Inr (ErrCustom (Addr a),
                h[a := \<lparr>code = code e, Message = ''An error occurred'',
                        Trace = captureStackTrace stk,
                        PreviousTraces = Trace e # PreviousTraces e, Err = Err e\<rparr>]) \<and>
         WrapMessage stk h (ErrCustom (Addr a)) msg =
           Inr (ErrCustom (Addr a),
                h[a := \<lparr>code = ErrorInternalServer, Message = msg,
                        Trace = captureStackTrace stk,
                        PreviousTraces = Trace e # PreviousTraces e, Err = Err e\<rparr>]) \<and>
         WrapMessageWithCode stk h (ErrCustom (Addr a)) c msg =
           Inr (ErrCustom (Addr a),
                h[a := \<lparr>code = c, Message = msg,
                        Trace = captureStackTrace stk,
                        PreviousTraces = Trace e # PreviousTraces e, Err = Err e\<rparr>]) \<and>
         (list_all isOverride opts \<longrightarrow>
           (\<exists>e'. wrapError stk h (ErrCustom (Addr a)) opts = Inr (ErrCustom (Addr a), h[a := e']) \<and>
                Trace e' = captureStackTrace stk \<and>
                PreviousTraces e' = Trace e # PreviousTraces e \<and>
                e' = fold applyOption opts
                       (e\<lparr>Trace := captureStackTrace stk,
                          PreviousTraces := Trace e # PreviousTraces e\<rparr>)))"
proof -
  from assms have a: "a < length h" and e: "e = h ! a"
    by (simp_all split: if_splits)
  have t: "WrapTrace stk h (ErrCustom (Addr a)) =
           Inr (ErrCustom (Addr a),
                h[a := \<lparr>code = code e, Message = ''An error occurred'',
                        Trace = captureStackTrace stk,
                        PreviousTraces = Trace e # PreviousTraces e, Err = Err e\<rparr>])"
    unfolding WrapTrace_def wrapError_existing [OF a] e by (cases "h ! a") simp
  have m: "WrapMessage stk h (ErrCustom (Addr a)) msg =
           Inr (ErrCustom (Addr a),
                h[a := \<lparr>code = ErrorInternalServer, Message = msg,
                        Trace = captureStackTrace stk,
                        PreviousTraces = Trace e # PreviousTraces e, Err = Err e\<rparr>])"
    unfolding WrapMessage_def wrapError_existing [OF a] e by (cases "h ! a") simp
  have mc: "WrapMessageWithCode stk h (ErrCustom (Addr a)) c msg =
           Inr (ErrCustom (Addr a),
                h[a := \<lparr>code = c, Message = msg,
                        Trace = captureStackTrace stk,
                        PreviousTraces = Trace e # PreviousTraces e, Err = Err e\<rparr>])"
    unfolding WrapMessageWithCode_def wrapError_existing [OF a] e by (cases "h ! a") simp
  have g: "\<exists>e'. wrapError stk h (ErrCustom (Addr a)) opts = Inr (ErrCustom (Addr a), h[a := e']) \<and>
                Trace e' = captureStackTrace stk \<and>
                PreviousTraces e' = Trace e # PreviousTraces e \<and>
                e' = fold applyOption opts
                       (e\<lparr>Trace := captureStackTrace stk,
                          PreviousTraces := Trace e # PreviousTraces e\<rparr>)"
    if ov: "list_all isOverride opts"
    using wrapError_existing [OF a, of stk opts] fold_override_frame [OF ov] e by simp
  from t m mc g show ?thesis by blast
qed

theorem rewrap_sets_traces_witness:
  "WrapMessage []
     [\<lparr>code = 404, Message = ''inner'', Trace = ''t1'', PreviousTraces = [''t0''],
       Err = ErrPlain 0 ''v is 0''\<rparr>] (ErrCustom (Addr 0)) ''outer'' =
     Inr (ErrCustom (Addr 0),
          [\<lparr>code = 500, Message = ''outer'', Trace = ''unknown'',
            PreviousTraces = [''t1'', ''t0''], Err = ErrPlain 0 ''v is 0''\<rparr>]) \<and>
   WrapTrace []
     [\<lparr>code = 404, Message = ''inner'', Trace = ''t1'', PreviousTraces = [''t0''],
       Err = ErrPlain 0 ''v is 0''\<rparr>] (ErrCustom (Addr 0)) =
     Inr (ErrCustom (Addr 0),
          [\<lparr>code = 404, Message = ''An error occurred'', Trace = ''unknown'',
            PreviousTraces = [''t1'', ''t0''], Err = ErrPlain 0 ''v is 0''\<rparr>])"
proof -
  let ?e = "\<lparr>code = 404, Message = ''inner'', Trace = ''t1'', PreviousTraces = [''t0''],
             Err = ErrPlain 0 ''v is 0''\<rparr>"
  have d: "deref [?e] (Addr 0) = Inr ?e" by simp
  have cs: "captureStackTrace [] = ''unknown''"
    by (simp add: captureStackTrace_def runtime_Callers_def)
  show ?thesis
    using rewrap_sets_traces [OF d, of "[]" "''outer''" 0 "[]"]
    by (simp add: cs ErrorInternalServer_def)
qed

text \<open>
  Claim C2 as worded covers every error that passes the type test of \<open>wrapError\<close>.  A nil
  \<^verbatim>\<open>*CustomError\<close> held in the interface passes it, and every entry point then panics at
  the field access instead of setting a trace.
\<close>

theorem rewrap_nil_pointer_counterexample:
  "IsCustomError (ErrCustom NilPtr) \<and>
   WrapTrace [] [] (ErrCustom NilPtr) = Inl NilDereference \<and>
   WrapMessage [] [] (ErrCustom NilPtr) ''m'' = Inl NilDereference \<and>
   WrapMessageWithCode [] [] (ErrCustom NilPtr) 404 ''m'' = Inl NilDereference"
  by (simp add: IsCustomError_def WrapTrace_def WrapMessage_def WrapMessageWithCode_def
      wrapError_def)

subsection \<open>C3: wrapping a \<^verbatim>\<open>*CustomError\<close> keeps the reference and the cause\<close>

text \<open>
  Claim C3, for a pointer to a live struct.  Wrapping a non-nil \<^verbatim>\<open>*CustomError\<close> with message
  and code options returns the very pointer it was given and allocates nothing: the store
  keeps its size, every other struct is unchanged, and in the wrapped struct the \<open>Err\<close>
  field is unchanged; the message changes only if a message option was passed and the code
  only if a code option was passed.
\<close>

theorem rewrap_same_reference_frame:
  assumes "deref h (Addr a) = Inr e" and "list_all isOverride opts"
  shows "\<exists>h'. wrapError stk h (ErrCustom (Addr a)) opts = Inr (ErrCustom (Addr a), h') \<and>
              length h' = length h \<and>
              (\<forall>b < length h. b \<noteq> a \<longrightarrow> h' ! b = h ! b) \<and>
              Err (h' ! a) = Err e \<and>
              CustomError_Cause h' (Addr a) = Inr (Err e) \<and>
              ((\<forall>m. WithMessage m \<notin> set opts) \<longrightarrow> Message (h' ! a) = Message e) \<and>
              ((\<forall>c. WithCode c \<notin> set opts) \<longrightarrow> code (h' ! a) = code e)"
proof -
  from assms(1) have a: "a < length h" and e: "e = h ! a"
    by (simp_all split: if_splits)
  let ?u = "e\<lparr>Trace := captureStackTrace stk, PreviousTraces := Trace e # PreviousTraces e\<rparr>"
  let ?e' = "fold applyOption opts ?u"
  let ?h' = "h[a := ?e']"
  have w: "wrapError stk h (ErrCustom (Addr a)) opts = Inr (ErrCustom (Addr a), ?h')"
    using wrapError_existing [OF a, of stk opts] e by simp
  have cell: "?h' ! a = ?e'" using a by simp
  have err: "Err ?e' = Err e"
    using fold_override_frame [OF assms(2), of ?u] by simp
  have others: "\<forall>b < length h. b \<noteq> a \<longrightarrow> ?h' ! b = h ! b" by simp
  have cause: "CustomError_Cause ?h' (Addr a) = Inr (Err e)"
    unfolding CustomError_Cause_def using a err by simp
  have msg: "(\<forall>m. WithMessage m \<notin> set opts) \<longrightarrow> Message ?e' = Message e"
    using fold_no_message [OF _ assms(2), of ?u] by simp
  have cd: "(\<forall>c. WithCode c \<notin> set opts) \<longrightarrow> code ?e' = code e"
    using fold_no_code [OF _ assms(2), of ?u] by simp
  show ?thesis
    apply (rule exI [of _ ?h'])
    apply (intro conjI)
    apply (rule w)
    apply simp
    apply (rule others)
    using cell err apply simp
    apply (rule cause)
    using cell msg apply simp
    using cell cd apply simp
    done
qed

theorem rewrap_same_reference_frame_witness:
  "\<exists>h'. wrapError []
          [\<lparr>code = 400, Message = ''other'', Trace = [], PreviousTraces = [], Err = ErrNil\<rparr>,
           \<lparr>code = 404, Message = ''inner'', Trace = ''t1'', PreviousTraces = [''t0''],
            Err = ErrPlain 0 ''v is 0''\<rparr>]
          (ErrCustom (Addr 1)) [WithMessage ''outer''] = Inr (ErrCustom (Addr 1), h') \<and>
        length h' = 2 \<and>
        h' ! 0 = \<lparr>code = 400, Message = ''other'', Trace = [], PreviousTraces = [], Err = ErrNil\<rparr> \<and>
        Err (h' ! 1) = ErrPlain 0 ''v is 0'' \<and>
        code (h' ! 1) = 404"
proof -
  let ?o = "\<lparr>code = 400, Message = ''other'', Trace = [], PreviousTraces = [], Err = ErrNil\<rparr>"
  let ?e = "\<lparr>code = 404, Message = ''inner'', Trace = ''t1'', PreviousTraces = [''t0''],
             Err = ErrPlain 0 ''v is 0''\<rparr>"
  have d: "deref [?o, ?e] (Addr 1) = Inr ?e" by simp
  have ov: "list_all isOverride [WithMessage ''outer'']" by simp
  from rewrap_same_reference_frame [OF d ov, of "[]"]
  obtain h' where h': "wrapError [] [?o, ?e] (ErrCustom (Addr 1)) [WithMessage ''outer'']
        = Inr (ErrCustom (Addr 1), h')"
    "length h' = length [?o, ?e]"
    "\<forall>b < length [?o, ?e]. b \<noteq> 1 \<longrightarrow> h' ! b = [?o, ?e] ! b"
    "Err (h' ! 1) = Err ?e"
    "(\<forall>c. WithCode c \<notin> set [WithMessage ''outer'']) \<longrightarrow> code (h' ! 1) = code ?e"
    by blast
  from h'(3) have "h' ! 0 = ?o" by simp
  with h' show ?thesis by (intro exI [of _ h']) simp
qed

text \<open>
  Claim C3 as worded covers every error that passes the type test of \<open>wrapError\<close>.  On a
  nil \<^verbatim>\<open>*CustomError\<close> held in the interface \<open>wrapError\<close> panics and returns no reference.
\<close>

theorem rewrap_nil_no_reference_counterexample:
  "IsCustomError (ErrCustom NilPtr) \<and>
   wrapError []
     [\<lparr>code = 404, Message = ''inner'', Trace = ''t1'', PreviousTraces = [],
       Err = ErrPlain 0 ''v is 0''\<rparr>]
     (ErrCustom NilPtr) [WithMessage ''outer''] = Inl NilDereference"
  by (simp add: IsCustomError_def wrapError_def)

subsection \<open>C4: wrapping a plain error allocates a new struct\<close>

text \<open>
  Claim C4, as the code has it.  Wrapping an error that is not a \<^verbatim>\<open>*CustomError\<close> appends one
  struct to the store and returns its address.  The struct carries the captured trace, no
  prior traces and the wrapped error as \<open>Err\<close>.  Its code is 500 from \<open>WrapMessage\<close>, the given
  code from \<open>WrapMessageWithCode\<close>, and the zero value 0 from \<open>WrapTrace\<close>, which passes no
  code option.
\<close>

theorem wrap_plain_new_error:
  "WrapTrace stk h (ErrPlain i m) =
     Inr (ErrCustom (Addr (length h)),
          h @ [\<lparr>code = 0, Message = ''An error occurred'', Trace = captureStackTrace stk,
                PreviousTraces = [], Err = ErrPlain i m\<rparr>]) \<and>
   WrapMessage stk h (ErrPlain i m) msg =
     Inr (ErrCustom (Addr (length h)),
          h @ [\<lparr>code = ErrorInternalServer, Message = msg, Trace = captureStackTrace stk,
                PreviousTraces = [], Err = ErrPlain i m\<rparr>]) \<and>
   WrapMessageWithCode stk h (ErrPlain i m) c msg =
     Inr (ErrCustom (Addr (length h)),
          h @ [\<lparr>code = c, Message = msg, Trace = captureStackTrace stk,
                PreviousTraces = [], Err = ErrPlain i m\<rparr>]) \<and>
   CustomError_Code (h @ [\<lparr>code = 0, Message = ''An error occurred'',
                          Trace = captureStackTrace stk,
                          PreviousTraces = [], Err = ErrPlain i m\<rparr>]) (Addr (length h)) = Inr 0"
  by (simp add: WrapTrace_def WrapMessage_def WrapMessageWithCode_def wrapError_fresh
      IsCustomError_def CustomError_Code_def)

theorem wrap_plain_new_error_witness:
  "WrapTrace [] [] (ErrPlain 7 ''boom'') =
     Inr (ErrCustom (Addr 0),
          [\<lparr>code = 0, Message = ''An error occurred'', Trace = ''unknown'',
            PreviousTraces = [], Err = ErrPlain 7 ''boom''\<rparr>]) \<and>
   WrapMessage [] [] (ErrPlain 7 ''boom'') ''m'' =
     Inr (ErrCustom (Addr 0),
          [\<lparr>code = 500, Message = ''m'', Trace = ''unknown'',
            PreviousTraces = [], Err = ErrPlain 7 ''boom''\<rparr>])"
  using wrap_plain_new_error [of "[]" "[]" 7 "''boom''" "''m''" 404]
  by (simp add: captureStackTrace_def runtime_Callers_def ErrorInternalServer_def)

text \<open>
  Claim C4 as worded gives the struct made by \<open>WrapTrace\<close> the code 500.  On an empty store
  \<open>WrapTrace\<close> of a plain error yields a struct whose \<open>Code\<close> is 0.
\<close>

theorem wrap_plain_code_default_counterexample:
  "WrapTrace [] [] (ErrPlain 0 ''boom'') =
     Inr (ErrCustom (Addr 0),
          [\<lparr>code = 0, Message = ''An error occurred'', Trace = ''unknown'',
            PreviousTraces = [], Err = ErrPlain 0 ''boom''\<rparr>]) \<and>
   CustomError_Code
     [\<lparr>code = 0, Message = ''An error occurred'', Trace = ''unknown'',
       PreviousTraces = [], Err = ErrPlain 0 ''boom''\<rparr>] (Addr 0) \<noteq> Inr ErrorInternalServer"
  by (simp add: WrapTrace_def wrapError_def newCustomError_def zeroCustomError_def
      captureStackTrace_def runtime_Callers_def CustomError_Code_def ErrorInternalServer_def)

subsection \<open>C5: the free function \<open>Cause\<close>\<close>

text \<open>
  Claim C5, for chains without a nil pointer.  When the cause chain of an error is the
  finite list \<open>es\<close> of nil, plain errors and pointers to live structs, the free function
  \<open>Cause\<close> returns, and what it returns is the last element of the chain, which is terminal:
  not a \<^verbatim>\<open>*CustomError\<close>, or a \<^verbatim>\<open>*CustomError\<close> without a cause.
\<close>

theorem Cause_returns_terminal:
  assumes "isChain h es"
  shows "Cause h (hd es) = Some (Inr (last es)) \<and> terminal h (last es)"
  using assms Cause_chain isChain_last_terminal by blast

theorem Cause_returns_terminal_witness:
  "isChain
     [\<lparr>code = 500, Message = ''outer'', Trace = ''t2'', PreviousTraces = [''t1''],
       Err = ErrCustom (Addr 1)\<rparr>,
      \<lparr>code = 404, Message = ''inner'', Trace = ''t0'', PreviousTraces = [],
       Err = ErrPlain 3 ''v is 0''\<rparr>]
     [ErrCustom (Addr 0), ErrCustom (Addr 1), ErrPlain 3 ''v is 0''] \<and>
   Cause
     [\<lparr>code = 500, Message = ''outer'', Trace = ''t2'', PreviousTraces = [''t1''],
       Err = ErrCustom (Addr 1)\<rparr>,
      \<lparr>code = 404, Message = ''inner'', Trace = ''t0'', PreviousTraces = [],
       Err = ErrPlain 3 ''v is 0''\<rparr>]
     (ErrCustom (Addr 0)) = Some (Inr (ErrPlain 3 ''v is 0''))"
proof -
  let ?h = "[\<lparr>code = 500, Message = ''outer'', Trace = ''t2'', PreviousTraces = [''t1''],
       Err = ErrCustom (Addr 1)\<rparr>,
      \<lparr>code = 404, Message = ''inner'', Trace = ''t0'', PreviousTraces = [],
       Err = ErrPlain 3 ''v is 0''\<rparr>]"
  have c: "isChain ?h [ErrCustom (Addr 0), ErrCustom (Addr 1), ErrPlain 3 ''v is 0'']"
    by (simp add: terminal_def)
  show ?thesis using c Cause_returns_terminal [OF c] by simp
qed

text \<open>
  Claim C5 as worded covers every finite acyclic chain.  A chain that is, or ends in, a nil
  \<^verbatim>\<open>*CustomError\<close> held in the interface is finite and acyclic, and on it \<open>Cause\<close> panics
  instead of returning an error.
\<close>

theorem Cause_nil_pointer_counterexample:
  "Cause [] (ErrCustom NilPtr) = Some (Inl NilDereference) \<and>
   Cause
     [\<lparr>code = 500, Message = ''outer'', Trace = ''t'', PreviousTraces = [],
       Err = ErrCustom NilPtr\<rparr>]
     (ErrCustom (Addr 0)) = Some (Inl NilDereference)"
  by (simp add: Cause.simps CustomError_Cause_def)

subsection \<open>C6: \<open>PrintTrace\<close> and \<open>Trace\<close>\<close>




subsection \<open>C7: \<open>Error\<close> of a constructed error\<close>

text \<open>
  Claim C7.  For every message and code, \<open>Error\<close> of the struct made by \<open>New\<close> is the message
  when that is not empty and \<^verbatim>\<open>unknown error\<close> when it is; its \<open>Code\<close> is the given code; and
  \<open>Error\<close> returns the empty string on no store and no pointer at all.
\<close>

theorem New_Error_never_empty:
  "CustomError_Error (snd (New h m c)) (fst (New h m c)) =
     Inr (if m = [] then ''unknown error'' else m) \<and>
   CustomError_Error (snd (New h m c)) (fst (New h m c)) \<noteq> Inr [] \<and>
   CustomError_Code (snd (New h m c)) (fst (New h m c)) = Inr c \<and>
   CustomError_Error h' p \<noteq> Inr []"
  by (cases p)
     (simp_all add: New_def newCustomError_def zeroCustomError_def CustomError_Error_def
        CustomError_Code_def)

theorem New_Error_never_empty_witness:
  "CustomError_Error (snd (New [] '''' 404)) (fst (New [] '''' 404)) = Inr ''unknown error'' \<and>
   CustomError_Error (snd (New [] ''not found'' 404)) (fst (New [] ''not found'' 404))
     = Inr ''not found''"
  using New_Error_never_empty [of "[]" "''''" 404 "[]" NilPtr]
    New_Error_never_empty [of "[]" "''not found''" 404 "[]" NilPtr]
  by simp

subsection \<open>C8: \<open>Is\<close> compares codes\<close>

text \<open>
  Claim C8, for pointers to live structs.  \<open>Is\<close> is false on nil and on every error of
  another type; for a receiver holding \<open>e\<close> and a target \<^verbatim>\<open>*CustomError\<close> holding \<open>te\<close> it is true
  exactly when the two codes are equal, whatever the messages and causes.
\<close>

theorem Is_compares_codes:
  "CustomError_Is h p ErrNil = Inr False \<and>
   CustomError_Is h p (ErrPlain i m) = Inr False \<and>
   (deref h p = Inr e \<and> deref h t = Inr te \<longrightarrow>
      CustomError_Is h p (ErrCustom t) = Inr (code e = code te))"
  by (simp add: CustomError_Is_def)

theorem Is_compares_codes_witness:
  "CustomError_Is
     [\<lparr>code = 404, Message = ''a'', Trace = [], PreviousTraces = [], Err = ErrNil\<rparr>,
      \<lparr>code = 404, Message = ''b'', Trace = [], PreviousTraces = [], Err = ErrNil\<rparr>,
      \<lparr>code = 403, Message = ''b'', Trace = [], PreviousTraces = [], Err = ErrNil\<rparr>]
     (Addr 0) (ErrCustom (Addr 1)) = Inr True \<and>
   CustomError_Is
     [\<lparr>code = 404, Message = ''a'', Trace = [], PreviousTraces = [], Err = ErrNil\<rparr>,
      \<lparr>code = 404, Message = ''b'', Trace = [], PreviousTraces = [], Err = ErrNil\<rparr>,
      \<lparr>code = 403, Message = ''b'', Trace = [], PreviousTraces = [], Err = ErrNil\<rparr>]
     (Addr 0) (ErrCustom (Addr 2)) = Inr False \<and>
   CustomError_Is
     [\<lparr>code = 404, Message = ''a'', Trace = [], PreviousTraces = [], Err = ErrNil\<rparr>,
      \<lparr>code = 404, Message = ''b'', Trace = [], PreviousTraces = [], Err = ErrNil\<rparr>,
      \<lparr>code = 403, Message = ''b'', Trace = [], PreviousTraces = [], Err = ErrNil\<rparr>]
     (Addr 0) (ErrPlain 0 ''plain'') = Inr False"
proof -
  let ?a = "\<lparr>code = 404, Message = ''a'', Trace = [], PreviousTraces = [], Err = ErrNil\<rparr>"
  let ?b = "\<lparr>code = 404, Message = ''b'', Trace = [], PreviousTraces = [], Err = ErrNil\<rparr>"
  let ?c = "\<lparr>code = 403, Message = ''b'', Trace = [], PreviousTraces = [], Err = ErrNil\<rparr>"
  have d0: "deref [?a, ?b, ?c] (Addr 0) = Inr ?a" by simp
  have d1: "deref [?a, ?b, ?c] (Addr 1) = Inr ?b" by simp
  have d2: "deref [?a, ?b, ?c] (Addr 2) = Inr ?c" by simp
  show ?thesis
    using Is_compares_codes [of "[?a, ?b, ?c]" "Addr 0" 0 "''plain''" ?a "Addr 1" ?b]
      Is_compares_codes [of "[?a, ?b, ?c]" "Addr 0" 0 "''plain''" ?a "Addr 2" ?c] d0 d1 d2
    by simp
qed

text \<open>
  Claim C8 as worded gives \<open>Is\<close> a truth value on every target.  On a target that is a
  nil \<^verbatim>\<open>*CustomError\<close> held in the interface the type assertion succeeds and reading its
  code panics, so \<open>Is\<close> returns neither true nor false; the same happens on a nil
  receiver when the target is a \<^verbatim>\<open>*CustomError\<close>.
\<close>

theorem Is_nil_target_counterexample:
  "IsCustomError (ErrCustom NilPtr) \<and>
   CustomError_Is
     [\<lparr>code = 404, Message = ''a'', Trace = [], PreviousTraces = [], Err = ErrNil\<rparr>]
     (Addr 0) (ErrCustom NilPtr) = Inl NilDereference \<and>
   CustomError_Is
     [\<lparr>code = 404, Message = ''a'', Trace = [], PreviousTraces = [], Err = ErrNil\<rparr>]
     NilPtr (ErrCustom (Addr 0)) = Inl NilDereference"
  by (simp add: IsCustomError_def CustomError_Is_def)

subsection \<open>C9: a wrap leaves a non-empty trace\<close>




subsection \<open>C10: wrapping nil\<close>

text \<open>
  Claim C10.  Each entry point, given the nil error, returns without a panic: it appends
  one struct to the store and returns its address, a non-nil \<^verbatim>\<open>*CustomError\<close>.  The struct has
  a nil \<open>Err\<close>, the captured trace, no prior traces, and the message and code the entry
  point passes (\<open>WrapTrace\<close> passes no code, which leaves 0).
\<close>

theorem wrap_nil_new_error:
  "WrapTrace stk h ErrNil =
     Inr (ErrCustom (Addr (length h)),
          h @ [\<lparr>code = 0, Message = ''An error occurred'', Trace = captureStackTrace stk,
                PreviousTraces = [], Err = ErrNil\<rparr>]) \<and>
   WrapMessage stk h ErrNil msg =
     Inr (ErrCustom (Addr (length h)),
          h @ [\<lparr>code = ErrorInternalServer, Message = msg, Trace = captureStackTrace stk,
                PreviousTraces = [], Err = ErrNil\<rparr>]) \<and>
   WrapMessageWithCode stk h ErrNil c msg =
     Inr (ErrCustom (Addr (length h)),
          h @ [\<lparr>code = c, Message = msg, Trace = captureStackTrace stk,
                PreviousTraces = [], Err = ErrNil\<rparr>]) \<and>
   ErrCustom (Addr (length h)) \<noteq> ErrNil \<and>
   ErrCustom (Addr (length h)) \<noteq> ErrCustom NilPtr"
  by (simp add: WrapTrace_def WrapMessage_def WrapMessageWithCode_def wrapError_fresh
      IsCustomError_def)

theorem wrap_nil_new_error_witness:
  "WrapMessageWithCode [] [] ErrNil 404 ''gone'' =
     Inr (ErrCustom (Addr 0),
          [\<lparr>code = 404, Message = ''gone'', Trace = ''unknown'',
            PreviousTraces = [], Err = ErrNil\<rparr>]) \<and>
   CustomError_Cause
     [\<lparr>code = 404, Message = ''gone'', Trace = ''unknown'',
       PreviousTraces = [], Err = ErrNil\<rparr>] (Addr 0) = Inr ErrNil"
  using wrap_nil_new_error [of "[]" "[]" "''gone''" 404]
  by (simp add: captureStackTrace_def runtime_Callers_def CustomError_Cause_def)

end
